theory Spec2Isabelle
  imports Main "HOL-Library.Word" "HOL-Library.Signed_Division"
begin

unbundle bit_operations_syntax

section \<open>Data model of \<open>src/main.cpp\<close>\<close>

text \<open>
  The firmware keeps its whole state in global variables. On the ESP32-C3 target
  \<open>unsigned long\<close>, \<open>uint32_t\<close> and \<open>int\<close> are 32 bits wide, so every timestamp is
  a \<open>32 word\<close>: \<open>-\<close> wraps as the C subtraction does, \<open><\<close> and \<open>div\<close> are the
  unsigned ones. \<open>batteryLevel\<close> is a C \<open>int\<close>; it is kept as the 32-bit pattern and
  read as a signed number with \<open>sint\<close>.

  An Arduino \<open>String\<close> is a byte string, here a \<open>string\<close> (a list of \<open>char\<close>).
\<close>

type_synonym ulong = "32 word"

text \<open>
  The fields of the library's \<open>Notification\<close> and \<open>Navigation\<close> structs that
  \<open>main.cpp\<close> reads or writes. \<open>icon\<close> is the 48x48 bitmap (288 bytes).
\<close>

record Notification =
  title :: string
  message :: string

record Navigation =
  active :: bool
  hasIcon :: bool
  directions :: string
  distance :: string
  icon :: "8 word list"

text \<open>
  The \<open>Config\<close> kinds that \<open>onConfig\<close> tells apart; \<open>CF_OTHER\<close> stands for every
  other kind of the library's enumeration (they all fall through the \<open>if\<close> chain).
\<close>

datatype Config = CF_TIME | CF_PBAT | CF_NAV_DATA | CF_NAV_ICON | CF_OTHER

text \<open>
  What the handlers ask of the \<open>chronos\<close> object when they run: the formatted hour,
  \<open>getTime\<close> for a format string, the date and the navigation data it currently holds.
\<close>

record ChronosESP32 =
  getHourZ :: string
  getTime :: "string \<Rightarrow> string"
  getDate :: string
  getNavigation :: Navigation

text \<open>The global variables, and the \<open>static\<close> local \<open>lastUpdate\<close> of \<open>loop\<close>.\<close>

record state =
  currentTime :: string
  currentDate :: string
  hasNotif :: bool
  notifStart :: ulong
  notifText :: string
  hasNav :: bool
  navData :: Navigation
  navChanged :: bool
  batteryLevel :: "32 word"
  isCharging :: bool
  lastActivity :: ulong
  sleepEnabled :: bool
  buttonPressed :: bool
  lastUpdate :: ulong

text \<open>
  Everything the program does to the outside world is a call of a collaborator: the
  display (\<open>u8g2\<close>), the serial port and the power functions of the platform. A function
  of the model returns the calls it makes, in order.
\<close>

datatype font = font_6x10_tr | font_7x14B_tr | font_fub14_tr | font_logisoso32_tr

datatype effect =
    ClearBuffer
  | SendBuffer
  | SetFont font
  | DrawStr int int string
  | DrawPixel int int
  | DrawFrame int int int int
  | DrawBox int int int int
  | SerialPrintln string
  | Delay "32 word"
  | SleepEnableExt0Wakeup nat nat
  | SleepEnableTimerWakeup "64 word"
  | DeepSleepStart

definition BUTTON_PIN :: nat where
  "BUTTON_PIN = 2"

definition SLEEP_TIME_MS :: ulong where
  "SLEEP_TIME_MS = 30000"

definition DEEP_SLEEP_TIME_US :: "64 word" where
  "DEEP_SLEEP_TIME_US = 60000000"

text \<open>The initial values of the globals (a zero-initialised \<open>navData\<close>).\<close>

definition initial_navData :: Navigation where
  "initial_navData =
     \<lparr>active = False, hasIcon = False, directions = [], distance = [],
      icon = replicate 288 0\<rparr>"

definition initial_state :: state where
  "initial_state =
     \<lparr>currentTime = [], currentDate = [], hasNotif = False, notifStart = 0,
      notifText = [], hasNav = False, navData = initial_navData, navChanged = False,
      batteryLevel = 0, isCharging = False, lastActivity = 0, sleepEnabled = True,
      buttonPressed = False, lastUpdate = 0\<rparr>"

section \<open>The Arduino \<open>String\<close> operations that \<open>main.cpp\<close> calls\<close>

text \<open>
  \<open>String\<close> belongs to the Arduino core, not to the repository. The three operations
  below follow the core's implementation of them.

  \<open>substring(left, right)\<close>: the bounds are swapped when \<open>left > right\<close>, the result is
  empty when \<open>left\<close> is past the end, and \<open>right\<close> is cut to the length.
  \<open>substring(left)\<close> runs to the end of the string.
\<close>

definition substring :: "string \<Rightarrow> nat \<Rightarrow> nat \<Rightarrow> string" where
  "substring str left right =
     (let l = (if left > right then right else left);
          r = (if left > right then left else right)
      in if l \<ge> length str then []
         else take ((if r > length str then length str else r) - l) (drop l str))"

definition substring_from :: "string \<Rightarrow> nat \<Rightarrow> string" where
  "substring_from str left = substring str left (length str)"

text \<open>
  \<open>lastIndexOf(ch, fromIndex)\<close>: \<open>-1\<close> when \<open>fromIndex\<close> is not an index of the string,
  otherwise the greatest index \<open>i \<le> fromIndex\<close> that holds \<open>ch\<close>, or \<open>-1\<close> when there
  is none.
\<close>

definition lastIndexOf :: "string \<Rightarrow> char \<Rightarrow> nat \<Rightarrow> int" where
  "lastIndexOf str ch fromIndex =
     (if fromIndex \<ge> length str then - 1
      else (case List.find (\<lambda>i. str ! i = ch) (rev [0..<Suc fromIndex]) of
              None \<Rightarrow> - 1
            | Some i \<Rightarrow> int i))"

text \<open>\<open>String(n)\<close> for an unsigned number: its decimal digits.\<close>

definition digit_char :: "nat \<Rightarrow> char" where
  "digit_char d = char_of (48 + d)"

fun decimal :: "nat \<Rightarrow> string" where
  "decimal n = (if n < 10 then [digit_char n] else decimal (n div 10) @ [digit_char (n mod 10)])"

definition String_of_ulong :: "ulong \<Rightarrow> string" where
  "String_of_ulong n = decimal (unat n)"

section \<open>Drawing\<close>

text \<open>
  \<open>drawNavIcon\<close>: the two nested loops over the 48x48 bitmap, one \<open>drawPixel\<close> for each
  set bit (most significant bit first in each byte). \<open>byteIndex\<close> stays below 288, the
  size of the array.
\<close>

definition drawNavIcon :: "8 word list \<Rightarrow> effect list" where
  "drawNavIcon bitmap =
     concat (map (\<lambda>y. concat (map (\<lambda>x.
        (let byteIndex = (y * 48 + x) div 8;
             b = 7 - (x mod 8)
         in if (bitmap ! byteIndex) AND (push_bit b 1) \<noteq> 0
            then (if y + 16 < 64 \<and> x < 48 then [DrawPixel (int x) (int (y + 16))] else [])
            else [])) [0..<48])) [0..<48])"

text \<open>
  \<open>drawBattery\<close>: \<open>fill = (level * 18) / 100\<close> in C \<open>int\<close> arithmetic; the product is
  taken in 32 bits and the division truncates towards zero (\<open>sdiv\<close>).
\<close>

definition drawBattery :: "int \<Rightarrow> int \<Rightarrow> 32 word \<Rightarrow> effect list" where
  "drawBattery x y level =
     (let fill = sint (level * 18) sdiv 100
      in [DrawFrame x y 20 8, DrawBox (x + 20) (y + 2) 2 4, DrawBox (x + 1) (y + 1) fill 6])"

definition drawNotification :: "state \<Rightarrow> effect list" where
  "drawNotification s =
     [SetFont font_6x10_tr, DrawStr 0 12 ''Notifikasi:'', DrawStr 0 28 (notifText s)]"

text \<open>
  \<open>drawNavigation\<close>. \<open>getStrWidth\<close> is the display library's pixel width of a string
  in the font just selected; it is a parameter of the model.
\<close>

definition drawNavigation :: "(string \<Rightarrow> int) \<Rightarrow> state \<Rightarrow> effect list" where
  "drawNavigation getStrWidth s =
     (if hasIcon (navData s) then
        drawNavIcon (icon (navData s)) @
        [SetFont font_7x14B_tr] @
        (let y = (10::int);
             direction = directions (navData s)
         in if getStrWidth direction > 128 - 52 then
              (let split = lastIndexOf direction (CHR '' '') (length direction div 2)
               in if split \<noteq> - 1 then
                    (let line1 = substring direction 0 (nat split);
                         line2 = substring_from direction (nat (split + 1))
                     in [DrawStr 52 (y + 8) line1, DrawStr 52 (y + 20) line2])
                  else [DrawStr 52 (y + 12) direction])
            else [DrawStr 52 (y + 12) direction]) @
        [SetFont font_fub14_tr, DrawStr 52 (10 + 40) (distance (navData s))]
      else [])"

text \<open>\<open>drawClock\<close>; \<open>now\<close> is what \<open>millis()\<close> returns.\<close>

definition drawClock :: "ulong \<Rightarrow> state \<Rightarrow> effect list" where
  "drawClock now s =
     [SetFont font_logisoso32_tr, DrawStr 0 42 (currentTime s),
      SetFont font_6x10_tr, DrawStr 90 10 (currentDate s)] @
     drawBattery 100 52 (batteryLevel s) @
     (if \<not> isCharging s \<and> \<not> hasNotif s \<and> (\<not> hasNav s \<or> \<not> active (navData s)) then
        (let timeToSleep = SLEEP_TIME_MS - (now - lastActivity s)
         in if timeToSleep < 10000 then
              [SetFont font_6x10_tr,
               DrawStr 0 64 (''Sleep in '' @ String_of_ulong (timeToSleep div 1000) @ ''s'')]
            else [])
      else [])"

text \<open>\<open>drawScreen\<close>, the master draw: clear, one of the three screens, flush.\<close>

definition drawScreen :: "(string \<Rightarrow> int) \<Rightarrow> ulong \<Rightarrow> state \<Rightarrow> effect list" where
  "drawScreen getStrWidth now s =
     [ClearBuffer] @
     (if hasNotif s \<and> now - notifStart s < 1500 then drawNotification s
      else if hasNav s \<and> active (navData s) then drawNavigation getStrWidth s
      else drawClock now s) @
     [SendBuffer]"

section \<open>Sleep management\<close>

definition buttonISR :: "ulong \<Rightarrow> state \<Rightarrow> state" where
  "buttonISR now s = s\<lparr>buttonPressed := True, lastActivity := now\<rparr>"

text \<open>\<open>goToSleep\<close> only talks to the collaborators; \<open>DeepSleepStart\<close> does not return.\<close>

definition goToSleep :: "effect list" where
  "goToSleep =
     [SerialPrintln ''Going to deep sleep...'',
      ClearBuffer, SetFont font_6x10_tr, DrawStr 30 32 ''Sleeping...'', SendBuffer,
      Delay 1000,
      ClearBuffer, SendBuffer,
      SleepEnableExt0Wakeup BUTTON_PIN 0,
      SleepEnableTimerWakeup DEEP_SLEEP_TIME_US,
      DeepSleepStart]"

definition checkSleep :: "ulong \<Rightarrow> state \<Rightarrow> state \<times> effect list" where
  "checkSleep now s =
     (if isCharging s \<or> hasNotif s \<or> (hasNav s \<and> active (navData s)) then
        (s\<lparr>lastActivity := now\<rparr>, [])
      else if sleepEnabled s \<and> now - lastActivity s > SLEEP_TIME_MS then
        (s, goToSleep)
      else (s, []))"

section \<open>Callbacks\<close>

definition onConnection :: "bool \<Rightarrow> ulong \<Rightarrow> state \<Rightarrow> state" where
  "onConnection st now s = s\<lparr>lastActivity := now\<rparr>"

definition onNotification :: "Notification \<Rightarrow> ulong \<Rightarrow> state \<Rightarrow> state" where
  "onNotification notif now s =
     (let composed = title notif @ '': '' @ message notif;
          stored = (if length composed > 20 then substring composed 0 20 @ ''...''
                    else composed)
      in s\<lparr>notifText := stored, notifStart := now, hasNotif := True, lastActivity := now\<rparr>)"

definition onConfig ::
  "ChronosESP32 \<Rightarrow> Config \<Rightarrow> 32 word \<Rightarrow> 32 word \<Rightarrow> ulong \<Rightarrow> state \<Rightarrow> state" where
  "onConfig chronos type a b now s =
     (if type = CF_TIME then
        s\<lparr>currentTime := getHourZ chronos @ getTime chronos '':%M'',
          currentDate := getDate chronos\<rparr>
      else if type = CF_PBAT then
        s\<lparr>batteryLevel := b, isCharging := (a = 1), lastActivity := now\<rparr>
      else if type = CF_NAV_DATA then
        (let s1 = s\<lparr>navData := getNavigation chronos\<rparr>;
             s2 = s1\<lparr>hasNav := active (navData s1)\<rparr>
         in if active (navData s2) then s2\<lparr>lastActivity := now\<rparr> else s2)
      else if type = CF_NAV_ICON then
        (let temp = getNavigation chronos
         in s\<lparr>navData := (navData s)\<lparr>icon := icon temp, hasIcon := True\<rparr>\<rparr>)
      else s)"

section \<open>The main loop\<close>

text \<open>
  The four parts of \<open>loop\<close> after \<open>chronos.loop()\<close>: the pending button press, the
  redraw once a second, the expiry of the notification, and \<open>checkSleep\<close>.
\<close>

definition loopButton :: "ulong \<Rightarrow> state \<Rightarrow> state \<times> effect list" where
  "loopButton now s =
     (if buttonPressed s then
        (s\<lparr>buttonPressed := False, lastActivity := now\<rparr>,
         [SerialPrintln ''Button pressed - activity reset''])
      else (s, []))"

definition loopUpdate ::
  "ChronosESP32 \<Rightarrow> (string \<Rightarrow> int) \<Rightarrow> ulong \<Rightarrow> state \<Rightarrow> state \<times> effect list" where
  "loopUpdate chronos getStrWidth now s =
     (if now - lastUpdate s > 1000 then
        (let s1 = s\<lparr>lastUpdate := now,
                     currentTime := getHourZ chronos @ getTime chronos '':%M'',
                     currentDate := getDate chronos\<rparr>
         in (s1, drawScreen getStrWidth now s1))
      else (s, []))"

definition loopNotifExpiry :: "ulong \<Rightarrow> state \<Rightarrow> state" where
  "loopNotifExpiry now s =
     (if hasNotif s \<and> now - notifStart s > 1500 then s\<lparr>hasNotif := False\<rparr> else s)"

section \<open>Executions\<close>

text \<open>
  \<open>setup\<close> registers the three callbacks and the interrupt routine, and \<open>loop\<close> runs
  its four parts in turn. An execution is therefore a sequence of activations, each at
  the time \<open>millis()\<close> shows when it runs: a callback of the wireless library, the
  button interrupt, or one part of \<open>loop\<close>. \<open>step\<close> runs one activation.

  Two idealisations, the same in every function above: an activation is given one
  reading \<open>now\<close> of \<open>millis()\<close> for all the calls it makes, and it runs to completion
  (the interrupt is an activation of its own, between two others).
\<close>

datatype action =
    Connection bool
  | NotificationArrived Notification
  | ConfigUpdate ChronosESP32 Config "32 word" "32 word"
  | ButtonInterrupt
  | LoopButton
  | LoopUpdate ChronosESP32
  | LoopNotifExpiry
  | LoopCheckSleep

fun step :: "(string \<Rightarrow> int) \<Rightarrow> ulong \<Rightarrow> action \<Rightarrow> state \<Rightarrow> state \<times> effect list" where
  "step w now (Connection st) s = (onConnection st now s, [])"
| "step w now (NotificationArrived notif) s = (onNotification notif now s, [])"
| "step w now (ConfigUpdate chronos type a b) s = (onConfig chronos type a b now s, [])"
| "step w now ButtonInterrupt s = (buttonISR now s, [])"
| "step w now LoopButton s = loopButton now s"
| "step w now (LoopUpdate chronos) s = loopUpdate chronos w now s"
| "step w now LoopNotifExpiry s = (loopNotifExpiry now s, [])"
| "step w now LoopCheckSleep s = checkSleep now s"

text \<open>
  \<open>run\<close> executes a sequence of timed activations and stops at the first one that
  enters deep sleep (\<open>esp_deep_sleep_start\<close> does not return); it yields the time of
  that activation, or \<open>None\<close> when the device is still awake at the end.
\<close>

fun run :: "(string \<Rightarrow> int) \<Rightarrow> (ulong \<times> action) list \<Rightarrow> state \<Rightarrow> ulong option" where
  "run w [] s = None"
| "run w ((now, a) # rest) s =
     (case step w now a s of
        (s', out) \<Rightarrow> if DeepSleepStart \<in> set out then Some now else run w rest s')"

section \<open>Reference definitions and sample inputs\<close>

text \<open>
  The countdown text as the specification words it: \<open>"Sleep in {n}s"\<close> with \<open>n\<close> the
  ceiling of the remaining seconds. It is compared with what \<open>drawClock\<close> draws.
\<close>

definition spec_countdown :: "nat \<Rightarrow> string" where
  "spec_countdown remaining_ms =
     ''Sleep in '' @ decimal ((remaining_ms + 999) div 1000) @ ''s''"

text \<open>
  Sample inputs for the concrete instances below: a width function for a fixed-width
  font whose glyphs are seven pixels wide, a library object with an active navigation
  whose icon has not arrived, and a state that navigates along \<open>dir\<close> with its icon
  received.
\<close>

definition fixed_width :: "string \<Rightarrow> int" where
  "fixed_width str = 7 * int (length str)"

definition example_chronos :: ChronosESP32 where
  "example_chronos =
     \<lparr>getHourZ = ''09'', getTime = (\<lambda>fmt. '':41''), getDate = ''Fri 30'',
      getNavigation = \<lparr>active = True, hasIcon = False, directions = ''Turn left'',
                        distance = ''200 m'', icon = replicate 288 0\<rparr>\<rparr>"

definition example_navigation :: "string \<Rightarrow> state" where
  "example_navigation dir =
     initial_state\<lparr>hasNav := True,
       navData := \<lparr>active = True, hasIcon = True, directions = dir,
                   distance = ''200 m'', icon = replicate 288 0\<rparr>\<rparr>"

declare decimal.simps [simp del]

section \<open>Auxiliary facts\<close>

lemma digit_char_values:
  "digit_char 0 = CHR ''0''" "digit_char 1 = CHR ''1''" "digit_char 9 = CHR ''9''"
  by code_simp+

lemma decimal_digit: "n < 10 \<Longrightarrow> decimal n = [digit_char n]"
  by (simp add: decimal.simps)

lemma decimal_ten: "decimal 10 = ''10''"
  by code_simp

lemma find_downto:
  "List.find P (rev [0..<Suc n]) = Some k \<longleftrightarrow>
     k \<le> n \<and> P k \<and> (\<forall>j. k < j \<and> j \<le> n \<longrightarrow> \<not> P j)"
proof (induction n)
  case 0
  then show ?case by auto
next
  case (Suc n)
  show ?case
  proof (cases "P (Suc n)")
    case True
    have "k = Suc n" if "k \<le> Suc n" and "\<forall>j. k < j \<and> j \<le> Suc n \<longrightarrow> \<not> P j"
    proof (rule ccontr)
      assume "k \<noteq> Suc n"
      with that(1) have "k < Suc n" by simp
      with that(2) True show False by blast
    qed
    with True show ?thesis by auto
  next
    case False
    have "List.find P (rev [0..<Suc (Suc n)]) = List.find P (rev [0..<Suc n])"
      using False by simp
    then show ?thesis using Suc False
      by (metis le_Suc_eq)
  qed
qed

lemma find_downto_None:
  "List.find P (rev [0..<Suc n]) = None \<longleftrightarrow> (\<forall>j \<le> n. \<not> P j)"
  by (simp add: find_None_iff less_Suc_eq_le del: upt_Suc)

lemma lastIndexOf_found:
  assumes "k \<le> n" "n < length str" "str ! k = ch"
    and "\<forall>j. k < j \<and> j \<le> n \<longrightarrow> str ! j \<noteq> ch"
  shows "lastIndexOf str ch n = int k"
proof -
  have "List.find (\<lambda>i. str ! i = ch) (rev [0..<Suc n]) = Some k"
    using assms by (subst find_downto) blast
  then show ?thesis using assms(2) by (simp add: lastIndexOf_def)
qed

lemma lastIndexOf_none:
  assumes "\<forall>j \<le> n. j < length str \<longrightarrow> str ! j \<noteq> ch"
  shows "lastIndexOf str ch n = - 1"
proof (cases "n < length str")
  case True
  then have "List.find (\<lambda>i. str ! i = ch) (rev [0..<Suc n]) = None"
    using assms by (subst find_downto_None) auto
  then show ?thesis by (simp add: lastIndexOf_def)
next
  case False
  then show ?thesis by (simp add: lastIndexOf_def)
qed

lemma substring_prefix: "k < length str \<Longrightarrow> substring str 0 k = take k str"
  by (simp add: substring_def)

lemma substring_from_suffix:
  "k < length str \<Longrightarrow> substring_from str (Suc k) = drop (Suc k) str"
  by (auto simp: substring_from_def substring_def Let_def)

lemma unat_timeToSleep:
  fixes e :: "32 word"
  shows "unat (30000 - e) =
           (if unat e \<le> 30000 then 30000 - unat e else 30000 + 2 ^ 32 - unat e)"
  by (simp add: unat_sub_if_size word_size)

lemma timeToSleep_lt_iff:
  fixes e :: "32 word"
  shows "30000 - e < 10000 \<longleftrightarrow> 20000 < unat e \<and> unat e \<le> 30000"
proof -
  have "unat e < 2 ^ 32" using unsigned_less [of e] by simp
  then show ?thesis
    by (auto simp: word_less_nat_alt unat_timeToSleep)
qed

lemma unat_timeToSleep_div:
  fixes e :: "32 word"
  assumes "unat e \<le> 30000"
  shows "unat ((30000 - e) div 1000) = (30000 - unat e) div 1000"
  using assms by (simp add: unat_div unat_timeToSleep)

lemma drawNavIcon_no_sleep: "DeepSleepStart \<notin> set (drawNavIcon bm)"
  by (auto simp: drawNavIcon_def Let_def)

lemma drawScreen_no_sleep: "DeepSleepStart \<notin> set (drawScreen w now s)"
  by (auto simp: drawScreen_def drawNotification_def drawNavigation_def drawClock_def
      drawBattery_def drawNavIcon_no_sleep Let_def)

lemma step_sleep_only_check:
  assumes "DeepSleepStart \<in> set (snd (step w now a s))"
  shows "a = LoopCheckSleep \<and> 30000 < unat (now - lastActivity s)"
  using assms
  by (cases a)
     (auto simp: loopButton_def loopUpdate_def drawScreen_no_sleep checkSleep_def Let_def
        SLEEP_TIME_MS_def word_less_nat_alt split: if_splits)

lemma step_lastActivity:
  "lastActivity (fst (step w now a s)) = lastActivity s \<or>
   lastActivity (fst (step w now a s)) = now"
  by (cases a)
     (auto simp: onConnection_def onNotification_def onConfig_def buttonISR_def
        loopButton_def loopUpdate_def loopNotifExpiry_def checkSleep_def Let_def)

lemma unat_elapsed_le:
  fixes t la t0 :: "32 word"
  assumes "unat (la - t0) \<le> unat (t - t0)"
  shows "unat (t - la) \<le> unat (t - t0)"
proof -
  have eq: "(t - t0) - (la - t0) = t - la" by simp
  have "la - t0 \<le> t - t0" using assms by (simp add: word_le_nat_alt)
  then have "unat ((t - t0) - (la - t0)) = unat (t - t0) - unat (la - t0)"
    by (rule unat_sub)
  then have "unat (t - la) = unat (t - t0) - unat (la - t0)"
    by (simp only: eq)
  then show ?thesis by simp
qed

text \<open>
  An execution whose activations follow a point \<open>t0\<close> in time order, started in a state
  whose last recorded activity is not later than any of them, can enter deep sleep
  only more than 30000 ms after \<open>t0\<close>. Elapsed times are read modulo \<open>2^32\<close> ms, as
  \<open>millis()\<close> counts them.
\<close>

lemma run_sleeps_late:
  assumes "sorted (map (\<lambda>(t, a). unat (t - t0)) acts)"
    and "\<forall>(t, a) \<in> set acts. unat (lastActivity s - t0) \<le> unat (t - t0)"
    and "run w acts s = Some t"
  shows "30000 < unat (t - t0)"
  using assms
proof (induction acts arbitrary: s)
  case Nil
  then show ?case by simp
next
  case (Cons p rest)
  obtain t1 a1 where p: "p = (t1, a1)" by (cases p)
  obtain s' out where st: "step w t1 a1 s = (s', out)" by (cases "step w t1 a1 s")
  have la: "unat (lastActivity s - t0) \<le> unat (t1 - t0)"
    using Cons.prems(2) p by simp
  show ?case
  proof (cases "DeepSleepStart \<in> set out")
    case True
    then have "t = t1" using Cons.prems(3) p st by simp
    moreover have "30000 < unat (t1 - lastActivity s)"
      using step_sleep_only_check [of w t1 a1 s] True st by simp
    moreover have "unat (t1 - lastActivity s) \<le> unat (t1 - t0)"
      using la by (rule unat_elapsed_le)
    ultimately show ?thesis by simp
  next
    case False
    then have r: "run w rest s' = Some t" using Cons.prems(3) p st by simp
    have srt: "sorted (map (\<lambda>(t, a). unat (t - t0)) rest)"
      using Cons.prems(1) by simp
    have later: "\<forall>(u, b) \<in> set rest. unat (t1 - t0) \<le> unat (u - t0)"
      using Cons.prems(1) p by auto
    have "lastActivity s' = lastActivity s \<or> lastActivity s' = t1"
      using step_lastActivity [of w t1 a1 s] st by simp
    then have inv: "\<forall>(u, b) \<in> set rest. unat (lastActivity s' - t0) \<le> unat (u - t0)"
      using Cons.prems(2) later by auto
    show ?thesis using Cons.IH [OF srt inv r] .
  qed
qed

section \<open>Sleep eligibility\<close>

text \<open>
  Claim C1. A sleep check calls \<open>goToSleep\<close> if and only if, when it runs,
  \<open>sleepEnabled\<close> is true, more than 30000 ms have elapsed since \<open>lastActivity\<close>, the
  device is not charging, no notification is active and navigation is not active; in
  every other case it makes no call at all. The check reads the flags from the state it
  is given, so nothing is cached between checks.
\<close>

theorem checkSleep_sleeps_iff:
  "(snd (checkSleep now s) = goToSleep \<longleftrightarrow>
      sleepEnabled s \<and> 30000 < unat (now - lastActivity s) \<and>
      \<not> isCharging s \<and> \<not> hasNotif s \<and> \<not> (hasNav s \<and> active (navData s))) \<and>
   (snd (checkSleep now s) \<noteq> goToSleep \<longrightarrow> snd (checkSleep now s) = [])"
  by (simp add: checkSleep_def goToSleep_def SLEEP_TIME_MS_def word_less_nat_alt)

theorem checkSleep_sleeps_iff_witness:
  "snd (checkSleep 30001 initial_state) = goToSleep \<and>
   snd (checkSleep 30000 initial_state) = [] \<and>
   snd (checkSleep 30001 (initial_state\<lparr>isCharging := True\<rparr>)) = []"
  using checkSleep_sleeps_iff [of 30001 initial_state]
    checkSleep_sleeps_iff [of 30000 initial_state]
    checkSleep_sleeps_iff [of 30001 "initial_state\<lparr>isCharging := True\<rparr>"]
  by (simp add: initial_state_def initial_navData_def)

text \<open>
  Claim C9, as the code has it. A sleep check that runs while the device is charging,
  a notification is active or navigation is active sets \<open>lastActivity\<close> to the current
  time and returns without sleeping. Consequently, whatever the idle time was before,
  an execution that continues from there can enter deep sleep only more than 30000 ms
  after that check: the idle time starts again at the last check that ran under a
  suppressor, not at the moment the suppressor clears. The activations that follow are
  taken in time order (their distances from the check, modulo \<open>2^32\<close> ms, do not
  decrease).
\<close>

theorem checkSleep_suppressed_restarts_timeout:
  assumes "isCharging s \<or> hasNotif s \<or> (hasNav s \<and> active (navData s))"
  shows "checkSleep t0 s = (s\<lparr>lastActivity := t0\<rparr>, []) \<and>
         (\<forall>w acts t. sorted (map (\<lambda>(u, a). unat (u - t0)) acts) \<longrightarrow>
              run w acts (fst (checkSleep t0 s)) = Some t \<longrightarrow> 30000 < unat (t - t0))"
proof -
  have c: "checkSleep t0 s = (s\<lparr>lastActivity := t0\<rparr>, [])"
    using assms by (simp add: checkSleep_def)
  have "30000 < unat (t - t0)"
    if "sorted (map (\<lambda>(u, a). unat (u - t0)) acts)"
      and "run w acts (fst (checkSleep t0 s)) = Some t" for w acts t
  proof (rule run_sleeps_late [OF that(1) _ that(2)])
    show "\<forall>(u, a) \<in> set acts. unat (lastActivity (fst (checkSleep t0 s)) - t0) \<le> unat (u - t0)"
      by (simp add: c split_beta)
  qed
  with c show ?thesis by blast
qed

text \<open>
  An instance: a notification arrives at time 0. The check at 1495 runs while it is
  active and restarts the idle time; the expiry at 1506 clears the notification and
  leaves \<open>lastActivity\<close> alone; the check at 31495 (exactly 30000 ms after the check at
  1495) does not sleep, the check at 31496 does.
\<close>

theorem checkSleep_suppressed_restarts_timeout_witness:
  "checkSleep 1495 (onNotification \<lparr>title = ''Alice'', message = ''hi''\<rparr> 0 initial_state) =
     (onNotification \<lparr>title = ''Alice'', message = ''hi''\<rparr> 0 initial_state
        \<lparr>lastActivity := 1495\<rparr>, []) \<and>
   run fixed_width
     [(1506, LoopNotifExpiry), (31495, LoopCheckSleep), (31496, LoopCheckSleep)]
     (fst (checkSleep 1495
        (onNotification \<lparr>title = ''Alice'', message = ''hi''\<rparr> 0 initial_state))) =
     Some 31496 \<and>
   30000 < unat (31496 - 1495 :: 32 word)"
proof -
  let ?s = "onNotification \<lparr>title = ''Alice'', message = ''hi''\<rparr> 0 initial_state"
  let ?acts = "[(1506, LoopNotifExpiry), (31495, LoopCheckSleep),
      (31496 :: 32 word, LoopCheckSleep)]"
  have sup: "isCharging ?s \<or> hasNotif ?s \<or> (hasNav ?s \<and> active (navData ?s))"
    by (simp add: onNotification_def)
  have srt: "sorted (map (\<lambda>(u, a). unat (u - 1495)) ?acts)"
    by simp
  have r: "run fixed_width ?acts (fst (checkSleep 1495 ?s)) = Some 31496"
    by (simp add: checkSleep_def onNotification_def loopNotifExpiry_def initial_state_def
        initial_navData_def SLEEP_TIME_MS_def goToSleep_def)
  from checkSleep_suppressed_restarts_timeout [OF sup, of 1495] srt r
  show ?thesis by simp
qed

text \<open>
  The claim as written measures the 30000 ms from the moment the last suppressor
  clears, and fails so: in the execution above the notification, the only suppressor,
  is cleared by the expiry at 1506, nothing records an activity afterwards, and the
  check at 31496 enters deep sleep 29990 ms after the clearing.
\<close>

theorem checkSleep_after_clearing_counterexample:
  "hasNotif (onNotification \<lparr>title = ''Alice'', message = ''hi''\<rparr> 0 initial_state) \<and>
   snd (checkSleep 1495
      (onNotification \<lparr>title = ''Alice'', message = ''hi''\<rparr> 0 initial_state)) = [] \<and>
   hasNotif (fst (checkSleep 1495
      (onNotification \<lparr>title = ''Alice'', message = ''hi''\<rparr> 0 initial_state))) \<and>
   \<not> hasNotif (loopNotifExpiry 1506 (fst (checkSleep 1495
      (onNotification \<lparr>title = ''Alice'', message = ''hi''\<rparr> 0 initial_state)))) \<and>
   \<not> isCharging (loopNotifExpiry 1506 (fst (checkSleep 1495
      (onNotification \<lparr>title = ''Alice'', message = ''hi''\<rparr> 0 initial_state)))) \<and>
   \<not> hasNav (loopNotifExpiry 1506 (fst (checkSleep 1495
      (onNotification \<lparr>title = ''Alice'', message = ''hi''\<rparr> 0 initial_state)))) \<and>
   lastActivity (loopNotifExpiry 1506 (fst (checkSleep 1495
      (onNotification \<lparr>title = ''Alice'', message = ''hi''\<rparr> 0 initial_state)))) = 1495 \<and>
   run fixed_width [(1506, LoopNotifExpiry), (31496, LoopCheckSleep)]
     (fst (checkSleep 1495
        (onNotification \<lparr>title = ''Alice'', message = ''hi''\<rparr> 0 initial_state))) =
     Some 31496 \<and>
   unat (31496 - 1506 :: 32 word) = 29990 \<and>
   \<not> 30000 \<le> unat (31496 - 1506 :: 32 word)"
  by (simp add: checkSleep_def onNotification_def loopNotifExpiry_def initial_state_def
      initial_navData_def SLEEP_TIME_MS_def goToSleep_def)

section \<open>Display mode\<close>

text \<open>
  Claim C2. On every redraw exactly one screen is drawn between the clear and the
  flush, by fixed priority: the notification screen if a notification is active and
  less than 1500 ms have passed since its start, whatever the navigation state;
  otherwise the navigation screen if navigation is active; otherwise the clock.
\<close>

theorem drawScreen_priority:
  "(hasNotif s \<and> unat (now - notifStart s) < 1500 \<longrightarrow>
      drawScreen w now s = [ClearBuffer] @ drawNotification s @ [SendBuffer]) \<and>
   (\<not> (hasNotif s \<and> unat (now - notifStart s) < 1500) \<and> hasNav s \<and> active (navData s) \<longrightarrow>
      drawScreen w now s = [ClearBuffer] @ drawNavigation w s @ [SendBuffer]) \<and>
   (\<not> (hasNotif s \<and> unat (now - notifStart s) < 1500) \<and> \<not> (hasNav s \<and> active (navData s)) \<longrightarrow>
      drawScreen w now s = [ClearBuffer] @ drawClock now s @ [SendBuffer])"
  by (simp add: drawScreen_def word_less_nat_alt)

theorem drawScreen_priority_witness:
  "drawScreen fixed_width 2499
     (example_navigation ''Turn left''\<lparr>hasNotif := True, notifStart := 1000\<rparr>) =
     [ClearBuffer] @
     drawNotification (example_navigation ''Turn left''\<lparr>hasNotif := True, notifStart := 1000\<rparr>) @
     [SendBuffer] \<and>
   drawScreen fixed_width 2500
     (example_navigation ''Turn left''\<lparr>hasNotif := True, notifStart := 1000\<rparr>) =
     [ClearBuffer] @
     drawNavigation fixed_width
       (example_navigation ''Turn left''\<lparr>hasNotif := True, notifStart := 1000\<rparr>) @
     [SendBuffer] \<and>
   drawScreen fixed_width 0 initial_state =
     [ClearBuffer] @ drawClock 0 initial_state @ [SendBuffer]"
  using drawScreen_priority [of "example_navigation ''Turn left''\<lparr>hasNotif := True, notifStart := 1000\<rparr>" 2499 fixed_width]
    drawScreen_priority [of "example_navigation ''Turn left''\<lparr>hasNotif := True, notifStart := 1000\<rparr>" 2500 fixed_width]
    drawScreen_priority [of initial_state 0 fixed_width]
  by (simp add: example_navigation_def initial_state_def initial_navData_def)

text \<open>
  Claim C10. When the navigation screen is selected and the icon has not been received
  (\<open>hasIcon\<close> is false), \<open>drawNavigation\<close> makes no draw call, neither for the direction
  nor for the distance: the redraw is a clear followed by a flush.
\<close>

theorem drawNavigation_without_icon:
  assumes "hasNav s" and "active (navData s)"
    and "\<not> (hasNotif s \<and> now - notifStart s < 1500)"
    and "\<not> hasIcon (navData s)"
  shows "drawNavigation w s = [] \<and> drawScreen w now s = [ClearBuffer, SendBuffer]"
  using assms by (auto simp: drawScreen_def drawNavigation_def)

theorem drawNavigation_without_icon_witness:
  "drawNavigation fixed_width (onConfig example_chronos CF_NAV_DATA 0 0 0 initial_state) = [] \<and>
   drawScreen fixed_width 1001 (onConfig example_chronos CF_NAV_DATA 0 0 0 initial_state) =
     [ClearBuffer, SendBuffer]"
proof -
  let ?s = "onConfig example_chronos CF_NAV_DATA 0 0 0 initial_state"
  have "hasNav ?s" and "active (navData ?s)" and "\<not> hasIcon (navData ?s)"
    and "\<not> (hasNotif ?s \<and> 1001 - notifStart ?s < 1500)"
    by (simp_all add: onConfig_def example_chronos_def initial_state_def Let_def)
  then show ?thesis
    using drawNavigation_without_icon [of ?s 1001 fixed_width] by simp
qed

text \<open>
  Claim C6, as the code has it. With the icon received, the direction text is drawn on
  two lines only when it is wider than the 76 pixels beside the icon and a space stands
  at or before the middle index \<open>length div 2\<close>: the text is split at the last such
  space \<open>k\<close>, the first line holding what precedes it and the second what follows it.
  When the text is too wide and no space stands at or before the middle index (whether
  or not one stands after it), and when the text fits, it is drawn on one line,
  unchanged. The distance follows in each case.
\<close>

theorem drawNavigation_wraps:
  "(hasIcon (navData s) \<and> 76 < w (directions (navData s)) \<and>
    k \<le> length (directions (navData s)) div 2 \<and> k < length (directions (navData s)) \<and>
    directions (navData s) ! k = CHR '' '' \<and>
    (\<forall>j. k < j \<and> j \<le> length (directions (navData s)) div 2 \<longrightarrow>
         directions (navData s) ! j \<noteq> CHR '' '') \<longrightarrow>
    drawNavigation w s =
      drawNavIcon (icon (navData s)) @
      [SetFont font_7x14B_tr,
       DrawStr 52 18 (take k (directions (navData s))),
       DrawStr 52 30 (drop (Suc k) (directions (navData s))),
       SetFont font_fub14_tr, DrawStr 52 50 (distance (navData s))]) \<and>
   (hasIcon (navData s) \<and> 76 < w (directions (navData s)) \<and>
    (\<forall>j \<le> length (directions (navData s)) div 2.
        j < length (directions (navData s)) \<longrightarrow> directions (navData s) ! j \<noteq> CHR '' '') \<longrightarrow>
    drawNavigation w s =
      drawNavIcon (icon (navData s)) @
      [SetFont font_7x14B_tr, DrawStr 52 22 (directions (navData s)),
       SetFont font_fub14_tr, DrawStr 52 50 (distance (navData s))]) \<and>
   (hasIcon (navData s) \<and> w (directions (navData s)) \<le> 76 \<longrightarrow>
    drawNavigation w s =
      drawNavIcon (icon (navData s)) @
      [SetFont font_7x14B_tr, DrawStr 52 22 (directions (navData s)),
       SetFont font_fub14_tr, DrawStr 52 50 (distance (navData s))])"
proof (intro conjI impI)
  let ?d = "directions (navData s)"
  assume a: "hasIcon (navData s) \<and> 76 < w ?d \<and> k \<le> length ?d div 2 \<and> k < length ?d \<and>
    ?d ! k = CHR '' '' \<and> (\<forall>j. k < j \<and> j \<le> length ?d div 2 \<longrightarrow> ?d ! j \<noteq> CHR '' '')"
  then have "length ?d div 2 < length ?d" by auto
  with a have "lastIndexOf ?d (CHR '' '') (length ?d div 2) = int k"
    by (intro lastIndexOf_found) auto
  then show "drawNavigation w s =
      drawNavIcon (icon (navData s)) @
      [SetFont font_7x14B_tr, DrawStr 52 18 (take k ?d), DrawStr 52 30 (drop (Suc k) ?d),
       SetFont font_fub14_tr, DrawStr 52 50 (distance (navData s))]"
    using a
    by (simp add: drawNavigation_def Let_def substring_prefix substring_from_suffix
        nat_add_distrib)
next
  let ?d = "directions (navData s)"
  assume a: "hasIcon (navData s) \<and> 76 < w ?d \<and>
    (\<forall>j \<le> length ?d div 2. j < length ?d \<longrightarrow> ?d ! j \<noteq> CHR '' '')"
  then have "lastIndexOf ?d (CHR '' '') (length ?d div 2) = - 1"
    by (intro lastIndexOf_none) auto
  then show "drawNavigation w s =
      drawNavIcon (icon (navData s)) @
      [SetFont font_7x14B_tr, DrawStr 52 22 ?d,
       SetFont font_fub14_tr, DrawStr 52 50 (distance (navData s))]"
    using a by (simp add: drawNavigation_def Let_def)
next
  let ?d = "directions (navData s)"
  assume a: "hasIcon (navData s) \<and> w ?d \<le> 76"
  then show "drawNavigation w s =
      drawNavIcon (icon (navData s)) @
      [SetFont font_7x14B_tr, DrawStr 52 22 ?d,
       SetFont font_fub14_tr, DrawStr 52 50 (distance (navData s))]"
    by (simp add: drawNavigation_def Let_def)
qed

text \<open>
  Instances: a text of 19 characters with a space at its middle index 9 is split
  there; a text of 12 characters without a space stays on one line though it is too
  wide; a text of 9 characters fits.
\<close>

theorem drawNavigation_wraps_witness:
  "drawNavigation fixed_width (example_navigation ''Turn left onto Main'') =
     drawNavIcon (replicate 288 0) @
     [SetFont font_7x14B_tr, DrawStr 52 18 ''Turn left'', DrawStr 52 30 ''onto Main'',
      SetFont font_fub14_tr, DrawStr 52 50 ''200 m''] \<and>
   drawNavigation fixed_width (example_navigation ''Roundabouts!'') =
     drawNavIcon (replicate 288 0) @
     [SetFont font_7x14B_tr, DrawStr 52 22 ''Roundabouts!'',
      SetFont font_fub14_tr, DrawStr 52 50 ''200 m''] \<and>
   drawNavigation fixed_width (example_navigation ''Turn left'') =
     drawNavIcon (replicate 288 0) @
     [SetFont font_7x14B_tr, DrawStr 52 22 ''Turn left'',
      SetFont font_fub14_tr, DrawStr 52 50 ''200 m'']"
proof -
  have nospace: "\<forall>j\<le>6. j < 12 \<longrightarrow> ''Roundabouts!'' ! j \<noteq> CHR '' ''"
  proof (intro allI impI)
    fix j :: nat
    assume "j \<le> 6"
    then have "j \<in> {0, 1, 2, 3, 4, 5, 6}" by auto
    then show "''Roundabouts!'' ! j \<noteq> CHR '' ''" by auto
  qed
  show ?thesis
    using drawNavigation_wraps [of "example_navigation ''Turn left onto Main''" fixed_width 9]
      drawNavigation_wraps [of "example_navigation ''Roundabouts!''" fixed_width 0]
      drawNavigation_wraps [of "example_navigation ''Turn left''" fixed_width 0]
      nospace
    by (simp add: example_navigation_def fixed_width_def)
qed

text \<open>
  The claim as written fails in two ways. In \<open>ab cdefgh ijklm\<close> (15 characters, middle
  index 7) the space nearest the middle is the one at index 9, yet the text is split at
  index 2. And \<open>abcdefghij kl\<close> has a space, after its middle index 6, yet is drawn on
  one line although it is too wide.
\<close>

theorem drawNavigation_nearest_space_counterexample:
  "drawNavigation fixed_width (example_navigation ''ab cdefgh ijklm'') =
     drawNavIcon (replicate 288 0) @
     [SetFont font_7x14B_tr, DrawStr 52 18 ''ab'', DrawStr 52 30 ''cdefgh ijklm'',
      SetFont font_fub14_tr, DrawStr 52 50 ''200 m''] \<and>
   76 < fixed_width ''ab cdefgh ijklm'' \<and>
   length ''ab cdefgh ijklm'' div 2 = 7 \<and>
   ''ab cdefgh ijklm'' ! 9 = CHR '' '' \<and>
   \<bar>9 - 7\<bar> < \<bar>2 - (7::int)\<bar> \<and>
   drawNavigation fixed_width (example_navigation ''abcdefghij kl'') =
     drawNavIcon (replicate 288 0) @
     [SetFont font_7x14B_tr, DrawStr 52 22 ''abcdefghij kl'',
      SetFont font_fub14_tr, DrawStr 52 50 ''200 m''] \<and>
   76 < fixed_width ''abcdefghij kl'' \<and>
   CHR '' '' \<in> set ''abcdefghij kl''"
  by (simp add: drawNavigation_def example_navigation_def initial_state_def fixed_width_def
      lastIndexOf_def substring_def substring_from_def Let_def upt_rec)

text \<open>
  Claim C3, as the code has it. On the clock screen, when the device is not charging,
  no notification is active and navigation is not active, the countdown line
  \<open>Sleep in {n}s\<close> is drawn exactly when the idle time lies in (20000, 30000] ms, that
  is when the remaining time \<open>30000 - idle\<close> is below 10000 ms, and \<open>n\<close> is the
  remaining time in whole seconds, rounded down. Idle from time 0 the line runs from
  \<open>Sleep in 9s\<close> at 20001 ms to \<open>Sleep in 0s\<close> at 30000 ms; at 20000 ms and after
  30000 ms no countdown is drawn.
\<close>

theorem drawClock_countdown:
  assumes "\<not> isCharging s" and "\<not> hasNotif s" and "\<not> (hasNav s \<and> active (navData s))"
  shows "drawClock now s =
     [SetFont font_logisoso32_tr, DrawStr 0 42 (currentTime s),
      SetFont font_6x10_tr, DrawStr 90 10 (currentDate s)] @
     drawBattery 100 52 (batteryLevel s) @
     (if 20000 < unat (now - lastActivity s) \<and> unat (now - lastActivity s) \<le> 30000
      then [SetFont font_6x10_tr,
            DrawStr 0 64 (''Sleep in '' @
              decimal ((30000 - unat (now - lastActivity s)) div 1000) @ ''s'')]
      else [])"
  using assms
  by (auto simp: drawClock_def SLEEP_TIME_MS_def Let_def timeToSleep_lt_iff
      String_of_ulong_def unat_timeToSleep_div)

theorem drawClock_countdown_witness:
  "drawClock 20001 initial_state =
     [SetFont font_logisoso32_tr, DrawStr 0 42 [], SetFont font_6x10_tr, DrawStr 90 10 []] @
     drawBattery 100 52 0 @ [SetFont font_6x10_tr, DrawStr 0 64 ''Sleep in 9s''] \<and>
   drawClock 30000 initial_state =
     [SetFont font_logisoso32_tr, DrawStr 0 42 [], SetFont font_6x10_tr, DrawStr 90 10 []] @
     drawBattery 100 52 0 @ [SetFont font_6x10_tr, DrawStr 0 64 ''Sleep in 0s''] \<and>
   drawClock 20000 initial_state =
     [SetFont font_logisoso32_tr, DrawStr 0 42 [], SetFont font_6x10_tr, DrawStr 90 10 []] @
     drawBattery 100 52 0 \<and>
   drawClock 30001 initial_state =
     [SetFont font_logisoso32_tr, DrawStr 0 42 [], SetFont font_6x10_tr, DrawStr 90 10 []] @
     drawBattery 100 52 0"
  using drawClock_countdown [of initial_state 20001] drawClock_countdown [of initial_state 30000]
    drawClock_countdown [of initial_state 20000] drawClock_countdown [of initial_state 30001]
  by (simp add: initial_state_def initial_navData_def decimal_digit digit_char_values)

text \<open>
  The claim as written fails: after 20500 ms of idleness 9500 ms remain, whose ceiling
  in seconds is 10, and the line drawn is \<open>Sleep in 9s\<close>; and at 20000 ms, the start
  of the interval the claim gives, no countdown is drawn at all.
\<close>

theorem drawClock_ceiling_counterexample:
  "DrawStr 0 64 ''Sleep in 9s'' \<in> set (drawClock 20500 initial_state) \<and>
   spec_countdown (30000 - 20500) = ''Sleep in 10s'' \<and>
   DrawStr 0 64 (spec_countdown (30000 - 20500)) \<notin> set (drawClock 20500 initial_state) \<and>
   drawClock 20000 initial_state =
     [SetFont font_logisoso32_tr, DrawStr 0 42 [], SetFont font_6x10_tr, DrawStr 90 10 [],
      DrawFrame 100 52 20 8, DrawBox 120 54 2 4, DrawBox 101 53 0 6]"
  by (simp add: drawClock_def drawBattery_def initial_state_def initial_navData_def
      SLEEP_TIME_MS_def String_of_ulong_def spec_countdown_def decimal_digit decimal_ten
      digit_char_values Let_def)

section \<open>Event handlers\<close>

text \<open>
  Claim C4, as the code has it. A connection-state change, a notification, a battery
  update, a navigation data update whose navigation is active, the button interrupt
  and the handling of a pending button press in \<open>loop\<close> set \<open>lastActivity\<close> to the
  current time. A time-sync update, a navigation icon update, a navigation data update
  whose navigation is not active and every other configuration kind leave
  \<open>lastActivity\<close> as it was.
\<close>

theorem lastActivity_updates:
  "lastActivity (onConnection st now s) = now \<and>
   lastActivity (onNotification notif now s) = now \<and>
   lastActivity (onConfig chronos CF_PBAT a b now s) = now \<and>
   (active (getNavigation chronos) \<longrightarrow>
      lastActivity (onConfig chronos CF_NAV_DATA a b now s) = now) \<and>
   lastActivity (buttonISR now s) = now \<and>
   (buttonPressed s \<longrightarrow> lastActivity (fst (loopButton now s)) = now) \<and>
   lastActivity (onConfig chronos CF_TIME a b now s) = lastActivity s \<and>
   lastActivity (onConfig chronos CF_NAV_ICON a b now s) = lastActivity s \<and>
   lastActivity (onConfig chronos CF_OTHER a b now s) = lastActivity s \<and>
   (\<not> active (getNavigation chronos) \<longrightarrow>
      lastActivity (onConfig chronos CF_NAV_DATA a b now s) = lastActivity s)"
  by (simp add: onConnection_def onNotification_def onConfig_def buttonISR_def
      loopButton_def Let_def)

theorem lastActivity_updates_witness:
  "lastActivity (onConnection True 5000 initial_state) = 5000 \<and>
   lastActivity (onNotification \<lparr>title = ''Alice'', message = ''hi''\<rparr> 5000 initial_state) = 5000 \<and>
   lastActivity (onConfig example_chronos CF_PBAT 1 80 5000 initial_state) = 5000 \<and>
   lastActivity (onConfig example_chronos CF_NAV_DATA 0 0 5000 initial_state) = 5000 \<and>
   lastActivity (buttonISR 5000 initial_state) = 5000 \<and>
   lastActivity (fst (loopButton 5000 (initial_state\<lparr>buttonPressed := True\<rparr>))) = 5000 \<and>
   lastActivity (onConfig example_chronos CF_TIME 0 0 5000 initial_state) = 0 \<and>
   lastActivity (onConfig example_chronos CF_NAV_ICON 0 0 5000 initial_state) = 0 \<and>
   lastActivity (onConfig (example_chronos\<lparr>getNavigation := initial_navData\<rparr>)
      CF_NAV_DATA 0 0 5000 initial_state) = 0"
  using lastActivity_updates [where st = True and now = 5000 and s = initial_state
      and notif = "\<lparr>title = ''Alice'', message = ''hi''\<rparr>"
      and chronos = example_chronos and a = 1 and b = 80]
    lastActivity_updates [where st = True and now = 5000 and s = initial_state
      and notif = "\<lparr>title = ''Alice'', message = ''hi''\<rparr>"
      and chronos = example_chronos and a = 0 and b = 0]
    lastActivity_updates [where st = True and now = 5000
      and s = "initial_state\<lparr>buttonPressed := True\<rparr>"
      and notif = "\<lparr>title = ''Alice'', message = ''hi''\<rparr>"
      and chronos = example_chronos and a = 0 and b = 0]
    lastActivity_updates [where st = True and now = 5000 and s = initial_state
      and notif = "\<lparr>title = ''Alice'', message = ''hi''\<rparr>"
      and chronos = "example_chronos\<lparr>getNavigation := initial_navData\<rparr>"
      and a = 0 and b = 0]
  by (simp add: example_chronos_def initial_navData_def initial_state_def)

text \<open>
  The claim as written fails: a time-sync update at time 5000 leaves \<open>lastActivity\<close>
  at 0, and so do a navigation icon update and a navigation data update whose
  navigation is not active.
\<close>

theorem lastActivity_time_sync_counterexample:
  "lastActivity (onConfig example_chronos CF_TIME 0 0 5000 initial_state) = 0 \<and>
   lastActivity (onConfig example_chronos CF_TIME 0 0 5000 initial_state) \<noteq> 5000 \<and>
   lastActivity (onConfig example_chronos CF_NAV_ICON 0 0 5000 initial_state) \<noteq> 5000 \<and>
   lastActivity (onConfig (example_chronos\<lparr>getNavigation := initial_navData\<rparr>)
      CF_NAV_DATA 0 0 5000 initial_state) \<noteq> 5000"
  by (simp add: onConfig_def initial_state_def example_chronos_def initial_navData_def Let_def)

text \<open>
  Claim C5, as the code has it. A battery update stores the level it receives as it
  is, without clamping it; no other activation (callback, interrupt or part of \<open>loop\<close>)
  changes the stored level. The level therefore lies in [0, 100] after an update
  exactly when the received level does.
\<close>

theorem batteryLevel_stored_unclamped:
  "batteryLevel (fst (step w now (ConfigUpdate chronos CF_PBAT a b) s)) = b \<and>
   ((\<forall>chronos a b. act \<noteq> ConfigUpdate chronos CF_PBAT a b) \<longrightarrow>
      batteryLevel (fst (step w now act s)) = batteryLevel s)"
  by (cases act)
     (auto simp: onConnection_def onNotification_def onConfig_def buttonISR_def
        loopButton_def loopUpdate_def loopNotifExpiry_def checkSleep_def Let_def)

theorem batteryLevel_stored_unclamped_witness:
  "batteryLevel (fst (step fixed_width 10 (ConfigUpdate example_chronos CF_PBAT 1 80)
      initial_state)) = 80 \<and>
   batteryLevel (fst (step fixed_width 20
      (NotificationArrived \<lparr>title = ''Alice'', message = ''hi''\<rparr>)
      (onConfig example_chronos CF_PBAT 1 80 10 initial_state))) = 80"
proof -
  have other: "\<forall>chronos a b.
      NotificationArrived \<lparr>title = ''Alice'', message = ''hi''\<rparr> \<noteq> ConfigUpdate chronos CF_PBAT a b"
    by simp
  show ?thesis
    using batteryLevel_stored_unclamped [of fixed_width 10 example_chronos 1 80 initial_state
        "NotificationArrived \<lparr>title = ''Alice'', message = ''hi''\<rparr>"]
      batteryLevel_stored_unclamped [of fixed_width 20 example_chronos 1 80
        "onConfig example_chronos CF_PBAT 1 80 10 initial_state"
        "NotificationArrived \<lparr>title = ''Alice'', message = ''hi''\<rparr>"]
      other
    by (simp add: onConfig_def)
qed

text \<open>
  The claim as written fails: a battery update that carries the level 200 stores 200,
  which is above 100; one that carries \<open>0xFFFFFFFF\<close> stores a level that reads as
  a negative \<open>int\<close>.
\<close>

theorem batteryLevel_clamp_counterexample:
  "batteryLevel (onConfig example_chronos CF_PBAT 0 200 0 initial_state) = 200 \<and>
   \<not> sint (batteryLevel (onConfig example_chronos CF_PBAT 0 200 0 initial_state)) \<le> 100 \<and>
   sint (batteryLevel (onConfig example_chronos CF_PBAT 0 4294967295 0 initial_state)) < 0"
  by (simp add: onConfig_def)

text \<open>
  Claim C7. A notification whose composed text (title, \<open>": "\<close>, message) is longer than
  20 characters is stored as the first 20 characters of that text followed by \<open>...\<close>;
  a composed text of 20 characters or fewer is stored unchanged.
\<close>

theorem onNotification_truncates:
  "notifText (onNotification notif now s) =
     (if length (title notif @ '': '' @ message notif) > 20
      then take 20 (title notif @ '': '' @ message notif) @ ''...''
      else title notif @ '': '' @ message notif)"
  by (simp add: onNotification_def substring_def Let_def)

theorem onNotification_truncates_witness:
  "length (''Alice'' @ '': '' @ ''are you coming now'') = 25 \<and>
   notifText (onNotification \<lparr>title = ''Alice'', message = ''are you coming now''\<rparr> 0
      initial_state) = ''Alice: are you comin...'' \<and>
   notifText (onNotification \<lparr>title = ''Alice'', message = ''hi''\<rparr> 0 initial_state) =
     ''Alice: hi''"
  using onNotification_truncates [of "\<lparr>title = ''Alice'', message = ''are you coming now''\<rparr>"
      0 initial_state]
    onNotification_truncates [of "\<lparr>title = ''Alice'', message = ''hi''\<rparr>" 0 initial_state]
  by simp

text \<open>
  Claim C8. The expiry check of \<open>loop\<close> does nothing when no notification is active: it
  returns the state it was given, at whatever time it runs. In particular, once an
  expiry has cleared the flag, a later check changes nothing.
\<close>

theorem loopNotifExpiry_noop:
  "(\<not> hasNotif s \<longrightarrow> loopNotifExpiry now s = s) \<and>
   (hasNotif s \<and> 1500 < unat (now - notifStart s) \<longrightarrow>
      \<not> hasNotif (loopNotifExpiry now s) \<and>
      loopNotifExpiry later (loopNotifExpiry now s) = loopNotifExpiry now s)"
  by (simp add: loopNotifExpiry_def word_less_nat_alt)

theorem loopNotifExpiry_noop_witness:
  "loopNotifExpiry 99999 initial_state = initial_state \<and>
   loopNotifExpiry 5000
     (loopNotifExpiry 1501 (onNotification \<lparr>title = ''Alice'', message = ''hi''\<rparr> 0 initial_state)) =
   loopNotifExpiry 1501 (onNotification \<lparr>title = ''Alice'', message = ''hi''\<rparr> 0 initial_state)"
  using loopNotifExpiry_noop [of initial_state 99999 0]
    loopNotifExpiry_noop
      [of "onNotification \<lparr>title = ''Alice'', message = ''hi''\<rparr> 0 initial_state" 1501 5000]
  by (simp add: initial_state_def onNotification_def)

end
